theory Spec2Isabelle
  imports Main
begin

section \<open>Tpetra::FECrsMatrix (Tpetra\_FECrsMatrix\_def.hpp)\<close>

text \<open>
  The enumeration \<open>FEWhichActive\<close> is declared in the class header, which is not among
  the sources; the definitions file names two of its enumerators. A C++ enumeration
  object may hold a value that is none of the named enumerators, so the model keeps a
  third alternative for every such value.
\<close>

datatype FEWhichActive = FE_ACTIVE_OVERLAP | FE_ACTIVE_LOCAL | FE_ACTIVE_OTHER nat

text \<open>
  The object: the \<open>CrsMatrix\<close> base sub-object (its internals are not shown, so its
  type is a parameter) and the two members the definitions file uses. Both members are
  \<open>Teuchos::RCP\<close> handles; \<open>None\<close> is the null handle, \<open>Some v\<close> a handle whose
  pointee currently holds \<open>v\<close>. The source's member names end in an underscore
  (\<open>activeCrsMatrix_\<close>, \<open>inactiveCrsMatrix_\<close>), which a HOL name cannot; the fields
  drop it.
\<close>

record 'm FECrsMatrix =
  crs_matrix :: 'm
  inactiveCrsMatrix :: "'m option"
  activeCrsMatrix :: "FEWhichActive option"

datatype fe_error = Null_RCP_dereference

text \<open>
  \<open>operator=\<close>: the body is \<open>return *this;\<close>. Objects live in a store, a reference is
  an address; the function gets the address of the target and of the right-hand side
  and returns the reference it hands back together with the store it leaves.
\<close>

type_synonym addr = nat

definition operator_assign ::
  "addr \<Rightarrow> addr \<Rightarrow> (addr \<rightharpoonup> 'm FECrsMatrix) \<Rightarrow> addr \<times> (addr \<rightharpoonup> 'm FECrsMatrix)" where
  "operator_assign this rhs \<sigma> = (this, \<sigma>)"

text \<open>
  \<open>switchActiveCrsMatrix\<close>: \<open>*activeCrsMatrix\<close> reads through the handle, which on a
  null handle is an error (a thrown \<open>NullReferenceError\<close> in a debug build). The swap
  with the inactive matrix is commented out in the source, so after the early return on
  a null \<open>inactiveCrsMatrix\<close> nothing else happens either.
\<close>

definition switchActiveCrsMatrix :: "'m FECrsMatrix \<Rightarrow> fe_error + 'm FECrsMatrix" where
  "switchActiveCrsMatrix this =
     (case activeCrsMatrix this of
        None \<Rightarrow> Inl Null_RCP_dereference
      | Some f \<Rightarrow>
          (let this1 =
                 (if f = FE_ACTIVE_OVERLAP
                  then this\<lparr>activeCrsMatrix := Some FE_ACTIVE_LOCAL\<rparr>
                  else this\<lparr>activeCrsMatrix := Some FE_ACTIVE_OVERLAP\<rparr>)
           in if inactiveCrsMatrix this1 = None then Inr this1 else Inr this1))"

text \<open>Two consecutive calls; the second runs only when the first returned.\<close>

definition switchActiveCrsMatrix_twice :: "'m FECrsMatrix \<Rightarrow> fe_error + 'm FECrsMatrix" where
  "switchActiveCrsMatrix_twice this =
     (case switchActiveCrsMatrix this of
        Inl e \<Rightarrow> Inl e
      | Inr this1 \<Rightarrow> switchActiveCrsMatrix this1)"

text \<open>
  \<open>doOverlapToLocal\<close> and \<open>doLocalToOverlap\<close>: the export is commented out, so both
  leave the object as it is; the first still reads through \<open>activeCrsMatrix\<close> when the
  inactive matrix is present.
\<close>

definition doOverlapToLocal :: "'m FECrsMatrix \<Rightarrow> fe_error + 'm FECrsMatrix" where
  "doOverlapToLocal this =
     (if inactiveCrsMatrix this \<noteq> None
      then (case activeCrsMatrix this of
              None \<Rightarrow> Inl Null_RCP_dereference
            | Some f \<Rightarrow> if f = FE_ACTIVE_OVERLAP then Inr this else Inr this)
      else Inr this)"

definition doLocalToOverlap :: "'m FECrsMatrix \<Rightarrow> 'm FECrsMatrix" where
  "doLocalToOverlap this = this"

section \<open>Zoltan2::MappingProblem (Zoltan2\_MappingProblem.hpp)\<close>

text \<open>
  The members of the class: three \<open>Teuchos::RCP\<close> handles (\<open>None\<close> is the null handle).
  The types of the solution, of the partitioning solution and of the machine
  representation are parameters: their classes are not among the sources.
\<close>

record ('sol, 'part, 'mach) MappingProblem =
  soln :: "'sol option"
  partSoln :: "'part option"
  machine :: "'mach option"

text \<open>
  What \<open>solve\<close> and \<open>createMappingProblem\<close> use and do not define, taken as parameters:
  \<^item> \<open>new_MappingSolution\<close>: \<open>new MappingSolution<Adapter>()\<close>, which delivers a fresh
    solution or throws;
  \<^item> \<open>CoordinateTaskMapper_map\<close>: building the \<open>CoordinateTaskMapper\<close> and calling
    \<open>alg.map(this->soln)\<close>; it returns with the solution as the algorithm left it, or
    throws (\<open>Inl\<close>), again with the solution as it left it;
  \<^item> \<open>new_machine_t\<close>: \<open>new machine_t(this->comm_)\<close>;
  \<^item> \<open>defString\<close>: the initial value of \<open>algName\<close>; the identifier is declared nowhere
    in the file;
  \<^item> \<open>pl\<close>: the parameter list, restricted to its string-valued entries;
    \<open>getEntryPtr\<close> is the lookup and a null pointer is \<open>None\<close>.
\<close>

record ('e, 'sol, 'mach) mapping_env =
  new_MappingSolution :: "'e + 'sol"
  CoordinateTaskMapper_map :: "'sol \<Rightarrow> ('e \<times> 'sol) + 'sol"
  new_machine_t :: "'e + 'mach"
  defString :: string
  pl :: "string \<rightharpoonup> string"

text \<open>
  Modelled from the spec: the macro \<open>Z2_FORWARD_EXCEPTIONS\<close>, which is defined in
  another header of the package. The spec calls it "a framework convention for exception
  re-throwing": the catch clauses it expands to throw what they caught, and a block that
  throws nothing is left alone.
\<close>

definition Z2_FORWARD_EXCEPTIONS :: "'e + 'a \<Rightarrow> 'e + 'a" where
  "Z2_FORWARD_EXCEPTIONS block = (case block of Inl e \<Rightarrow> Inl e | Inr v \<Rightarrow> Inr v)"

text \<open>The calls \<open>solve\<close> makes, in the order it makes them.\<close>

datatype mapping_call = Call_new_MappingSolution | Call_CoordinateTaskMapper_map

text \<open>
  The name \<open>solve\<close> compares with \<open>"geometric"\<close>: \<open>algName\<close> starts as \<open>defString\<close> and
  is overwritten by the entry \<open>"mapping_algorithm"\<close> when the list has one.
\<close>

definition algName :: "('e, 'sol, 'mach) mapping_env \<Rightarrow> string" where
  "algName env =
     (case pl env ''mapping_algorithm'' of None \<Rightarrow> defString env | Some v \<Rightarrow> v)"

text \<open>
  \<open>solve\<close> returns the calls it made, the object as it leaves it and the exception that
  leaves it, if any. The argument \<open>newData\<close> is not used by the body.
\<close>

definition solve ::
  "('e, 'sol, 'mach) mapping_env \<Rightarrow> bool \<Rightarrow> ('sol, 'part, 'mach) MappingProblem
     \<Rightarrow> mapping_call list \<times> ('sol, 'part, 'mach) MappingProblem \<times> 'e option" where
  "solve env newData this =
     (case Z2_FORWARD_EXCEPTIONS (new_MappingSolution env) of
        Inl e \<Rightarrow> ([Call_new_MappingSolution], this, Some e)
      | Inr s \<Rightarrow>
          (let this1 = this\<lparr>soln := Some s\<rparr> in
           if algName env = ''geometric''
           then (case Z2_FORWARD_EXCEPTIONS (CoordinateTaskMapper_map env s) of
                   Inl (e, s') \<Rightarrow>
                     ([Call_new_MappingSolution, Call_CoordinateTaskMapper_map],
                      this1\<lparr>soln := Some s'\<rparr>, Some e)
                 | Inr s' \<Rightarrow>
                     ([Call_new_MappingSolution, Call_CoordinateTaskMapper_map],
                      this1\<lparr>soln := Some s'\<rparr>, None))
           else ([Call_new_MappingSolution], this1, None)))"

text \<open>
  \<open>createMappingProblem\<close>: the two arguments are raw pointers (\<open>None\<close> is \<open>NULL\<close>).
\<close>

definition createMappingProblem ::
  "('e, 'sol, 'mach) mapping_env \<Rightarrow> 'part option \<Rightarrow> 'mach option
     \<Rightarrow> ('sol, 'part, 'mach) MappingProblem
     \<Rightarrow> ('sol, 'part, 'mach) MappingProblem \<times> 'e option" where
  "createMappingProblem env partSoln' machine' this =
     (let this1 = (case partSoln' of Some p \<Rightarrow> this\<lparr>partSoln := Some p\<rparr> | None \<Rightarrow> this) in
      case machine' of
        Some m \<Rightarrow> (this1\<lparr>machine := Some m\<rparr>, None)
      | None \<Rightarrow>
          (case Z2_FORWARD_EXCEPTIONS (new_machine_t env) of
             Inl e \<Rightarrow> (this1, Some e)
           | Inr m \<Rightarrow> (this1\<lparr>machine := Some m\<rparr>, None)))"


definition env_throwing :: "nat \<Rightarrow> (string, nat list, unit) mapping_env" where
  "env_throwing n =
     \<lparr>new_MappingSolution = (if n = 0 then Inl ''bad_alloc'' else Inr []),
      CoordinateTaskMapper_map = (\<lambda>s. Inl (''logic_error'', s)),
      new_machine_t = Inl ''runtime_error'', defString = ''geometric'', pl = Map.empty\<rparr>"

definition problem_sample :: "(nat list, unit, unit) MappingProblem" where
  "problem_sample = \<lparr>soln = None, partSoln = None, machine = None\<rparr>"

section \<open>XROL::Objective (XROL\_Objective.hpp)\<close>

text \<open>
  The nested class \<open>Impl\<close> is only declared; its member functions are taken as
  parameters, one field for each that a virtual method of \<open>Objective\<close> calls. Arguments
  passed by non-const reference (\<open>g\<close>, \<open>hv\<close>, \<open>tol\<close>) come back in the result. The first
  argument is what \<open>*this\<close> gives the \<open>Impl\<close> access to: the object with the overrides
  of its derived class, among them \<open>value\<close>.
\<close>

record ('obj, 'xp, 'xd, 'r) Impl =
  impl_gradient :: "'obj \<Rightarrow> 'xd \<Rightarrow> 'xp \<Rightarrow> 'r \<Rightarrow> 'xd \<times> 'r"
  impl_dirDeriv :: "'obj \<Rightarrow> 'xp \<Rightarrow> 'xp \<Rightarrow> 'r"
  impl_hessVec :: "'obj \<Rightarrow> 'xd \<Rightarrow> 'xp \<Rightarrow> 'xp \<Rightarrow> 'r \<Rightarrow> 'xd \<times> 'r"

text \<open>
  The object: the private members \<open>pObjImpl_\<close> and \<open>param_\<close> (a HOL name cannot end in
  an underscore), both \<open>std::unique_ptr\<close>, where \<open>None\<close> is the null pointer, and, as
  \<open>self\<close>, the part a derived class adds.
\<close>

record ('obj, 'xp, 'xd, 'r, 'p) Objective =
  pObjImpl :: "('obj, 'xp, 'xd, 'r) Impl option"
  param :: "'p option"
  self :: 'obj

text \<open>
  The two constructors initialise \<open>param_\<close> only, the first with a new
  \<open>ObjectiveParameters\<close> and the second with its argument; \<open>pObjImpl_\<close> is left as its
  default constructor makes it, null, and no member of the class assigns it.
\<close>

definition Objective_ctor :: "'p option \<Rightarrow> 'obj \<Rightarrow> ('obj, 'xp, 'xd, 'r, 'p) Objective" where
  "Objective_ctor p d = \<lparr>pObjImpl = None, param = p, self = d\<rparr>"

text \<open>The member functions of \<open>Impl\<close> that the virtual methods can call.\<close>

datatype impl_member = Impl_gradient | Impl_dirDeriv | Impl_hessVec

text \<open>A member call through a null \<open>pObjImpl_\<close> has no defined result.\<close>

datatype objective_error = Null_pObjImpl_dereference

text \<open>
  \<open>ignore\<close> is a helper of the library that is not among the sources. It is a
  parameter: for each argument list the class calls it with that holds an argument
  passed by non-const reference, the value it leaves in that argument
  (\<open>ignore(objEI)\<close> in \<open>access\<close>; \<open>ignore(hv,v,x)\<close> and \<open>ignore(Pv,v,x)\<close>, of the same
  types, in \<open>invHessVec\<close> and \<open>precond\<close>). In \<open>update\<close> its only argument is const. It
  is handed neither \<open>pObjImpl_\<close> nor \<open>*this\<close>.
\<close>

record ('ei, 'xp, 'xd) ignore_helper =
  ignore_objEI :: "'ei \<Rightarrow> 'ei"
  ignore_hv :: "'xp \<Rightarrow> 'xd \<Rightarrow> 'xp \<Rightarrow> 'xp"

text \<open>
  Each virtual method with a body returns the calls it made on the \<open>Impl\<close> object, in
  order, and what it leaves: its return value and the arguments it takes by non-const
  reference; or the error of going through a null \<open>pObjImpl_\<close>.
\<close>

definition setParameters ::
  "('obj, 'xp, 'xd, 'r, 'p) Objective \<Rightarrow> 'p option
     \<Rightarrow> objective_error + impl_member list \<times> ('obj, 'xp, 'xd, 'r, 'p) Objective" where
  "setParameters this p = Inr ([], this\<lparr>param := p\<rparr>)"

definition access ::
  "('ei, 'xp, 'xd) ignore_helper \<Rightarrow> ('obj, 'xp, 'xd, 'r, 'p) Objective \<Rightarrow> 'ei
     \<Rightarrow> objective_error + impl_member list \<times> 'ei" where
  "access ign this objEI = Inr ([], ignore_objEI ign objEI)"

definition update ::
  "('obj, 'xp, 'xd, 'r, 'p) Objective \<Rightarrow> 'xp \<Rightarrow> objective_error + impl_member list \<times> unit" where
  "update this x = Inr ([], ())"

definition gradient ::
  "('obj, 'xp, 'xd, 'r, 'p) Objective \<Rightarrow> 'xd \<Rightarrow> 'xp \<Rightarrow> 'r
     \<Rightarrow> objective_error + impl_member list \<times> ('xd \<times> 'r)" where
  "gradient this g x tol =
     (case pObjImpl this of
        None \<Rightarrow> Inl Null_pObjImpl_dereference
      | Some impl \<Rightarrow> Inr ([Impl_gradient], impl_gradient impl (self this) g x tol))"

definition dirDeriv ::
  "('obj, 'xp, 'xd, 'r, 'p) Objective \<Rightarrow> 'xp \<Rightarrow> 'xp \<Rightarrow> 'r
     \<Rightarrow> objective_error + impl_member list \<times> ('r \<times> 'r)" where
  "dirDeriv this x d tol =
     (case pObjImpl this of
        None \<Rightarrow> Inl Null_pObjImpl_dereference
      | Some impl \<Rightarrow> Inr ([Impl_dirDeriv], (impl_dirDeriv impl (self this) x d, tol)))"

definition hessVec ::
  "('obj, 'xp, 'xd, 'r, 'p) Objective \<Rightarrow> 'xd \<Rightarrow> 'xp \<Rightarrow> 'xp \<Rightarrow> 'r
     \<Rightarrow> objective_error + impl_member list \<times> ('xd \<times> 'r)" where
  "hessVec this hv v x tol =
     (case pObjImpl this of
        None \<Rightarrow> Inl Null_pObjImpl_dereference
      | Some impl \<Rightarrow> Inr ([Impl_hessVec], impl_hessVec impl (self this) hv v x tol))"

definition invHessVec ::
  "('ei, 'xp, 'xd) ignore_helper \<Rightarrow> ('obj, 'xp, 'xd, 'r, 'p) Objective
     \<Rightarrow> 'xp \<Rightarrow> 'xd \<Rightarrow> 'xp \<Rightarrow> 'r \<Rightarrow> objective_error + impl_member list \<times> ('xp \<times> 'r)" where
  "invHessVec ign this hv v x tol = Inr ([], (ignore_hv ign hv v x, tol))"

definition precond ::
  "('ei, 'xp, 'xd) ignore_helper \<Rightarrow> ('obj, 'xp, 'xd, 'r, 'p) Objective
     \<Rightarrow> 'xp \<Rightarrow> 'xd \<Rightarrow> 'xp \<Rightarrow> 'r \<Rightarrow> objective_error + impl_member list \<times> ('xp \<times> 'r)" where
  "precond ign this Pv v x tol = Inr ([], (ignore_hv ign Pv v x, tol))"

text \<open>
  A method delegates to the \<open>Impl\<close> object when it goes through \<open>pObjImpl_\<close>: it calls
  a member of the object, or meets the null pointer on the way to the call.
\<close>

definition delegates_to_Impl :: "objective_error + impl_member list \<times> 'a \<Rightarrow> bool" where
  "delegates_to_Impl r =
     (case r of Inl Null_pObjImpl_dereference \<Rightarrow> True | Inr (calls, out) \<Rightarrow> calls \<noteq> [])"

text \<open>The virtual methods as the class declares them: \<open>= 0\<close> or with a body.\<close>

datatype virtual_method =
  M_setParameters | M_access | M_update | M_value | M_gradient | M_dirDeriv | M_hessVec
  | M_invHessVec | M_precond

datatype virtual_kind = Pure_virtual | Virtual_with_body

fun declared :: "virtual_method \<Rightarrow> virtual_kind" where
  "declared M_setParameters = Virtual_with_body"
| "declared M_access = Virtual_with_body"
| "declared M_update = Virtual_with_body"
| "declared M_value = Pure_virtual"
| "declared M_gradient = Virtual_with_body"
| "declared M_dirDeriv = Virtual_with_body"
| "declared M_hessVec = Virtual_with_body"
| "declared M_invHessVec = Virtual_with_body"
| "declared M_precond = Virtual_with_body"

text \<open>
  Two objectives over the integers for \<open>x \<mapsto> x\<^sup>2\<close>: one as the constructor leaves it,
  and one holding an \<open>Impl\<close> that differentiates by forward differences of step 1; and
  two helpers: one that leaves the referenced argument alone and one that zeroes it.
\<close>

definition objective_constructed :: "(int \<Rightarrow> int, int, int, int, unit) Objective" where
  "objective_constructed = Objective_ctor (Some ()) (\<lambda>x. x * x)"

definition objective_sample :: "(int \<Rightarrow> int, int, int, int, unit) Objective" where
  "objective_sample =
     \<lparr>pObjImpl =
        Some \<lparr>impl_gradient = (\<lambda>val g x tol. (val (x + 1) - val x, tol)),
              impl_dirDeriv = (\<lambda>val x d. val (x + d) - val x),
              impl_hessVec = (\<lambda>val hv v x tol. (val (x + 2) - 2 * val (x + 1) + val x, tol))\<rparr>,
      param = Some (),
      self = (\<lambda>x. x * x)\<rparr>"

definition ignore_keeping :: "(string, int, int) ignore_helper" where
  "ignore_keeping = \<lparr>ignore_objEI = (\<lambda>e. e), ignore_hv = (\<lambda>hv v x. hv)\<rparr>"

definition ignore_zeroing :: "(string, int, int) ignore_helper" where
  "ignore_zeroing = \<lparr>ignore_objEI = (\<lambda>e. []), ignore_hv = (\<lambda>hv v x. 0)\<rparr>"

section \<open>The captured log of the load-balancing driver\<close>

text \<open>
  The rows of the log that give object counts: the driver's own \<open>objs:\<close> lines and the
  \<open>Number of objects\<close> row of each statistics table, before and after load balancing,
  each with the line of the log it stands on.
\<close>

datatype phase = Before_load_balancing | After_load_balancing

record object_count =
  phase_of :: phase
  printed_by :: string
  log_line :: nat
  count_min :: nat
  count_max :: nat
  count_sum :: nat

definition object_counts :: "object_count list" where
  "object_counts =
     [\<lparr>phase_of = Before_load_balancing, printed_by = ''DRIVER EVAL'', log_line = 21,
       count_min = 76, count_max = 76, count_sum = 380\<rparr>,
      \<lparr>phase_of = Before_load_balancing, printed_by = ''Zoltan_LB_Eval_Balance'', log_line = 27,
       count_min = 76, count_max = 76, count_sum = 380\<rparr>,
      \<lparr>phase_of = Before_load_balancing, printed_by = ''Zoltan_LB_Eval_Graph'', log_line = 34,
       count_min = 76, count_max = 76, count_sum = 380\<rparr>,
      \<lparr>phase_of = Before_load_balancing, printed_by = ''Zoltan_LB_Eval_HG'', log_line = 47,
       count_min = 76, count_max = 76, count_sum = 380\<rparr>,
      \<lparr>phase_of = After_load_balancing, printed_by = ''DRIVER EVAL'', log_line = 109,
       count_min = 0, count_max = 285, count_sum = 380\<rparr>,
      \<lparr>phase_of = After_load_balancing, printed_by = ''Zoltan_LB_Eval_Balance'', log_line = 120,
       count_min = 95, count_max = 95, count_sum = 380\<rparr>,
      \<lparr>phase_of = After_load_balancing, printed_by = ''Zoltan_LB_Eval_Graph'', log_line = 127,
       count_min = 95, count_max = 95, count_sum = 380\<rparr>,
      \<lparr>phase_of = After_load_balancing, printed_by = ''Zoltan_LB_Eval_HG'', log_line = 140,
       count_min = 95, count_max = 95, count_sum = 380\<rparr>]"

definition object_count_ok :: "object_count \<Rightarrow> bool" where
  "object_count_ok r =
     (count_sum r = 380 \<and> count_min r \<le> count_max r \<and> count_max r \<le> count_sum r)"

section \<open>The unit tests of the global-indexer utilities (tUniqueGlobalIndexerUtilities.cpp)\<close>

text \<open>
  The communicator as the tests read it. \<open>comm_ok\<close> is the contract of MPI (and of the
  serial communicator, which is rank 0 of 1): a rank lies below the number of processes.
\<close>

record Epetra_Comm =
  MyPID :: int
  NumProc :: int

definition comm_ok :: "Epetra_Comm \<Rightarrow> bool" where
  "comm_ok c = (0 \<le> MyPID c \<and> MyPID c < NumProc c)"

text \<open>
  \<open>TEST_EQUALITY\<close> and \<open>TEST_COMPARE\<close> record a pass or a failure and go on;
  \<open>TEUCHOS_ASSERT\<close> throws and ends the test. Reading a \<open>std::vector\<close> beyond its
  size has no defined result, which is the third value of a check. A test returns the
  checks it evaluated, in order, and the assertion that ended it, if one did.
\<close>

datatype check = Passed | Failed | Out_of_range

datatype thrown = Assert_numProcs_is_2 | Assert_false

definition TEST_EQUALITY :: "'a \<Rightarrow> 'a \<Rightarrow> check" where
  "TEST_EQUALITY a b = (if a = b then Passed else Failed)"

definition TEST_COMPARE_greater :: "int \<Rightarrow> int \<Rightarrow> check" where
  "TEST_COMPARE_greater a b = (if a > b then Passed else Failed)"

definition TEST_EQUALITY_at :: "int list \<Rightarrow> nat \<Rightarrow> int \<Rightarrow> check" where
  "TEST_EQUALITY_at v i k = (if i < length v then TEST_EQUALITY (v ! i) k else Out_of_range)"

text \<open>
  A run of \<open>TEST_EQUALITY(v[i], k)\<close> lines for consecutive \<open>i\<close>; the list holds the
  expected values as the test spells them out.
\<close>

fun expect_from :: "nat \<Rightarrow> int list \<Rightarrow> int list \<Rightarrow> check list" where
  "expect_from i v [] = []"
| "expect_from i v (k # ks) = TEST_EQUALITY_at v i k # expect_from (Suc i) v ks"

definition expect_entries :: "int list \<Rightarrow> int list \<Rightarrow> check list" where
  "expect_entries v ks = expect_from 0 v ks"

text \<open>
  What the tests get from the library under test, whose code is not among the sources:
  the owned-and-shared indices and the ghosted field vector (first test), the local
  entries of the reduced data vectors of \<open>U\<close> and \<open>T\<close> (second test), of the ghosted data
  vectors (third), of the data vectors (fourth), and the number of columns and the local
  entries of each column of the multi-column data vectors (fifth). The length of a list
  is the vector's local length.
\<close>

record fixture =
  eComm :: Epetra_Comm
  sharedIndices :: "int list"
  ghostedFields :: "int list"
  reducedUDataVector :: "int list"
  reducedTDataVector :: "int list"
  ghostedUDataVector :: "int list"
  ghostedTDataVector :: "int list"
  UDataVector :: "int list"
  TDataVector :: "int list"
  U_numVectors :: nat
  T_numVectors :: nat
  UDataVector_col :: "nat \<Rightarrow> int list"
  TDataVector_col :: "nat \<Rightarrow> int list"

definition GhostedFieldVector :: "fixture \<Rightarrow> check list \<times> thrown option" where
  "GhostedFieldVector fx =
     (let myRank = MyPID (eComm fx); numProcs = NumProc (eComm fx) in
      if numProcs \<noteq> 2 then ([], Some Assert_numProcs_is_2)
      else
        (let checks =
               [TEST_EQUALITY (length (ghostedFields fx)) (length (sharedIndices fx)),
                (if ghostedFields fx = [] then Out_of_range
                 else TEST_COMPARE_greater (min_list (ghostedFields fx)) (- 1))] in
         if myRank = 0
         then (checks @ expect_entries (ghostedFields fx) [0, 1, 0, 1, 0, 1, 0, 1, 0, 1, 0, 0, 0, 1],
               None)
         else if myRank = 1
         then (checks @ expect_entries (ghostedFields fx) [0, 1, 0, 1, 0, 1, 0, 1, 0, 0, 0, 0],
               None)
         else (checks, Some Assert_false)))"

definition updateGhostedDataVector :: "fixture \<Rightarrow> check list \<times> thrown option" where
  "updateGhostedDataVector fx =
     (let myRank = MyPID (eComm fx); numProcs = NumProc (eComm fx) in
      if numProcs \<noteq> 2 then ([], Some Assert_numProcs_is_2)
      else
        (let ghostedFields_u = reducedUDataVector fx; ghostedFields_t = reducedTDataVector fx;
             checks =
               [TEST_EQUALITY (length ghostedFields_u) 8, TEST_EQUALITY (length ghostedFields_t) 4] in
         if myRank = 0
         then (checks @ expect_entries ghostedFields_u [0, 2, 4, 6, 8, 12, 13, 10]
                 @ expect_entries ghostedFields_t [1, 3, 5, 7],
               None)
         else if myRank = 1
         then (checks @ expect_entries ghostedFields_u [2, 8, 10, 4, 12, 14, 15, 13]
                 @ expect_entries ghostedFields_t [3, 9, 11, 5],
               None)
         else (checks, Some Assert_false)))"

definition ArrayToFieldVector_ghost :: "fixture \<Rightarrow> check list \<times> thrown option" where
  "ArrayToFieldVector_ghost fx =
     (let myRank = MyPID (eComm fx); numProcs = NumProc (eComm fx) in
      if numProcs \<noteq> 2 then ([], Some Assert_numProcs_is_2)
      else
        (let ghostedFields_u = ghostedUDataVector fx; ghostedFields_t = ghostedTDataVector fx in
         if myRank = 0
         then ([TEST_EQUALITY (length ghostedFields_u) 8, TEST_EQUALITY (length ghostedFields_t) 6]
                 @ expect_entries ghostedFields_u [0, 2, 4, 6, 8, 12, 13, 10]
                 @ expect_entries ghostedFields_t [1, 3, 5, 7, 9, 11],
               None)
         else if myRank = 1
         then ([TEST_EQUALITY (length ghostedFields_u) 8, TEST_EQUALITY (length ghostedFields_t) 4]
                 @ expect_entries ghostedFields_u [2, 8, 10, 4, 12, 14, 15, 13]
                 @ expect_entries ghostedFields_t [3, 9, 11, 5],
               None)
         else ([], Some Assert_false)))"

definition ArrayToFieldVector :: "fixture \<Rightarrow> check list \<times> thrown option" where
  "ArrayToFieldVector fx =
     (let myRank = MyPID (eComm fx); numProcs = NumProc (eComm fx) in
      if numProcs \<noteq> 2 then ([], Some Assert_numProcs_is_2)
      else
        (let fields_u = UDataVector fx; fields_t = TDataVector fx in
         if myRank = 0
         then ([TEST_EQUALITY (length fields_u) 6, TEST_EQUALITY (length fields_t) 5]
                 @ expect_entries fields_u [6, 0, 2, 8, 10, 13]
                 @ expect_entries fields_t [7, 1, 3, 9, 11],
               None)
         else if myRank = 1
         then ([TEST_EQUALITY (length fields_u) 4, TEST_EQUALITY (length fields_t) 1]
                 @ expect_entries fields_u [4, 12, 15, 14]
                 @ expect_entries fields_t [5],
               None)
         else ([], Some Assert_false)))"

text \<open>
  The fifth test branches on the rank inside its loop over the columns; an assertion
  thrown in one pass ends the loop and the test.
\<close>

fun multicol_columns :: "fixture \<Rightarrow> nat list \<Rightarrow> check list \<times> thrown option" where
  "multicol_columns fx [] = ([], None)"
| "multicol_columns fx (c # cs) =
     (let myRank = MyPID (eComm fx);
          fields_u = UDataVector_col fx c; fields_t = TDataVector_col fx c in
      if myRank = 0
      then (case multicol_columns fx cs of
              (later, t) \<Rightarrow>
                ([TEST_EQUALITY (length fields_u) 6, TEST_EQUALITY (length fields_t) 5]
                   @ expect_entries fields_u (map (\<lambda>k. k + int c) [6, 0, 2, 8, 10, 13])
                   @ expect_entries fields_t (map (\<lambda>k. k + int c) [7, 1, 3, 9, 11])
                   @ later,
                 t))
      else if myRank = 1
      then (case multicol_columns fx cs of
              (later, t) \<Rightarrow>
                ([TEST_EQUALITY (length fields_u) 4, TEST_EQUALITY (length fields_t) 1]
                   @ expect_entries fields_u (map (\<lambda>k. k + int c) [4, 12, 15, 14])
                   @ expect_entries fields_t (map (\<lambda>k. k + int c) [5])
                   @ later,
                 t))
      else ([], Some Assert_false))"

definition ArrayToFieldVector_multicol :: "fixture \<Rightarrow> check list \<times> thrown option" where
  "ArrayToFieldVector_multicol fx =
     (let numProcs = NumProc (eComm fx) in
      if numProcs \<noteq> 2 then ([], Some Assert_numProcs_is_2)
      else
        (let numCols = 5;
             checks = [TEST_EQUALITY (U_numVectors fx) numCols,
                       TEST_EQUALITY (T_numVectors fx) numCols] in
         case multicol_columns fx [0..<numCols] of
           (later, t) \<Rightarrow> (checks @ later, t)))"

text \<open>The tests of the file, in its order.\<close>

definition unit_tests :: "(string \<times> (fixture \<Rightarrow> check list \<times> thrown option)) list" where
  "unit_tests =
     [(''GhostedFieldVector'', GhostedFieldVector),
      (''updateGhostedDataVector'', updateGhostedDataVector),
      (''ArrayToFieldVector_ghost'', ArrayToFieldVector_ghost),
      (''ArrayToFieldVector'', ArrayToFieldVector),
      (''ArrayToFieldVector_multicol'', ArrayToFieldVector_multicol)]"

text \<open>A run on \<open>n\<close> processes seen from rank \<open>r\<close>, the library delivering nothing.\<close>

definition fixture_sample :: "int \<Rightarrow> int \<Rightarrow> fixture" where
  "fixture_sample r n =
     \<lparr>eComm = \<lparr>MyPID = r, NumProc = n\<rparr>, sharedIndices = [], ghostedFields = [],
      reducedUDataVector = [], reducedTDataVector = [], ghostedUDataVector = [],
      ghostedTDataVector = [], UDataVector = [], TDataVector = [],
      U_numVectors = 0, T_numVectors = 0,
      UDataVector_col = (\<lambda>c. []), TDataVector_col = (\<lambda>c. [])\<rparr>"

section \<open>Theorems\<close>

subsection \<open>Tpetra::FECrsMatrix\<close>

text \<open>
  C10. For every target and every right-hand side, \<open>operator=\<close> returns a reference to
  the target and leaves the store, hence every field of the target (and of every other
  object), unchanged: nothing is copied from the right-hand side.
\<close>

theorem operator_assign_returns_this_unchanged:
  "fst (operator_assign this rhs \<sigma>) = this \<and> snd (operator_assign this rhs \<sigma>) = \<sigma>
   \<and> snd (operator_assign this rhs \<sigma>) this = \<sigma> this"
  by (simp add: operator_assign_def)

text \<open>
  C9. When the flag can be read, one call of \<open>switchActiveCrsMatrix\<close> returns the object
  with the flag set to \<open>FE_ACTIVE_LOCAL\<close> if it was \<open>FE_ACTIVE_OVERLAP\<close> and to
  \<open>FE_ACTIVE_OVERLAP\<close> for any other value, and with nothing else changed; for a flag
  that is one of the two enumerators, two consecutive calls give the object back as it
  was.
\<close>

theorem switchActiveCrsMatrix_toggles:
  "activeCrsMatrix this = Some f \<Longrightarrow>
     switchActiveCrsMatrix this =
       Inr (this\<lparr>activeCrsMatrix :=
                   Some (if f = FE_ACTIVE_OVERLAP then FE_ACTIVE_LOCAL else FE_ACTIVE_OVERLAP)\<rparr>)
     \<and> (\<forall>this1. switchActiveCrsMatrix this = Inr this1 \<longrightarrow>
            crs_matrix this1 = crs_matrix this
            \<and> inactiveCrsMatrix this1 = inactiveCrsMatrix this)
     \<and> (f = FE_ACTIVE_OVERLAP \<or> f = FE_ACTIVE_LOCAL \<longrightarrow>
            switchActiveCrsMatrix_twice this = Inr this)"
  by (auto simp: switchActiveCrsMatrix_def switchActiveCrsMatrix_twice_def)

theorem switchActiveCrsMatrix_toggles_witness:
  "switchActiveCrsMatrix
       \<lparr>crs_matrix = (7::nat), inactiveCrsMatrix = None, activeCrsMatrix = Some FE_ACTIVE_LOCAL\<rparr>
     = Inr \<lparr>crs_matrix = 7, inactiveCrsMatrix = None, activeCrsMatrix = Some FE_ACTIVE_OVERLAP\<rparr>
   \<and> switchActiveCrsMatrix_twice
       \<lparr>crs_matrix = (7::nat), inactiveCrsMatrix = None, activeCrsMatrix = Some FE_ACTIVE_LOCAL\<rparr>
     = Inr \<lparr>crs_matrix = 7, inactiveCrsMatrix = None, activeCrsMatrix = Some FE_ACTIVE_LOCAL\<rparr>"
  using switchActiveCrsMatrix_toggles
    [of "\<lparr>crs_matrix = (7::nat), inactiveCrsMatrix = None, activeCrsMatrix = Some FE_ACTIVE_LOCAL\<rparr>"
        FE_ACTIVE_LOCAL]
  by simp

subsection \<open>Zoltan2::MappingProblem\<close>

lemma solve_calls_algorithm_iff:
  "(Call_CoordinateTaskMapper_map \<in> set (fst (solve env newData this)))
     = ((\<exists>s. new_MappingSolution env = Inr s) \<and> algName env = ''geometric'')"
  by (cases "new_MappingSolution env")
     (auto simp: solve_def Z2_FORWARD_EXCEPTIONS_def Let_def split: sum.splits)



text \<open>
  C6. The three \<open>try\<close> blocks (creating the solution and invoking the algorithm in
  \<open>solve\<close>, creating the machine representation in \<open>createMappingProblem\<close>) are each
  closed by \<open>Z2_FORWARD_EXCEPTIONS\<close>, so an exception thrown in any of them leaves the
  function as that same exception; nothing is swallowed: a call that returns without an
  exception made no call that threw.
\<close>

theorem exceptions_are_forwarded:
  "Z2_FORWARD_EXCEPTIONS (Inl e :: 'e + 'sol) = Inl e
   \<and> (new_MappingSolution env = Inl e \<longrightarrow>
        solve env newData this = ([Call_new_MappingSolution], this, Some e))
   \<and> (new_MappingSolution env = Inr s \<and> algName env = ''geometric''
        \<and> CoordinateTaskMapper_map env s = Inl (e, s') \<longrightarrow>
        snd (snd (solve env newData this)) = Some e)
   \<and> (new_machine_t env = Inl e \<longrightarrow>
        snd (createMappingProblem env partSoln' None this) = Some e)
   \<and> (snd (snd (solve env newData this)) = None \<longrightarrow>
        (\<exists>s. new_MappingSolution env = Inr s
           \<and> (algName env = ''geometric'' \<longrightarrow> (\<exists>s'. CoordinateTaskMapper_map env s = Inr s'))))
   \<and> (snd (createMappingProblem env partSoln' machine' this) = None \<longrightarrow>
        machine' \<noteq> None \<or> (\<exists>m. new_machine_t env = Inr m))"
  by (cases "new_MappingSolution env"; cases machine'; cases "new_machine_t env")
     (auto simp: solve_def createMappingProblem_def Z2_FORWARD_EXCEPTIONS_def Let_def
           split: sum.splits option.splits)

theorem exceptions_are_forwarded_witness:
  "solve (env_throwing 0) True problem_sample
     = ([Call_new_MappingSolution], problem_sample, Some ''bad_alloc'')
   \<and> snd (snd (solve (env_throwing 1) True problem_sample)) = Some ''logic_error''
   \<and> snd (createMappingProblem (env_throwing 1) None None problem_sample)
     = Some ''runtime_error''"
proof -
  have new0: "new_MappingSolution (env_throwing 0) = Inl ''bad_alloc''"
    by (simp add: env_throwing_def)
  have map1: "new_MappingSolution (env_throwing 1) = Inr []
      \<and> algName (env_throwing 1) = ''geometric''
      \<and> CoordinateTaskMapper_map (env_throwing 1) [] = Inl (''logic_error'', [])"
    by (simp add: env_throwing_def algName_def)
  have mach1: "new_machine_t (env_throwing 1) = Inl ''runtime_error''"
    by (simp add: env_throwing_def)
  from new0 map1 mach1 show ?thesis
    using
      exceptions_are_forwarded
        [of "''bad_alloc''" "env_throwing 0" True problem_sample "[]" "[]" None None]
      exceptions_are_forwarded
        [of "''logic_error''" "env_throwing 1" True problem_sample "[]" "[]" None None]
      exceptions_are_forwarded
        [of "''runtime_error''" "env_throwing 1" True problem_sample "[]" "[]" None None]
    by blast
qed

subsection \<open>XROL::Objective\<close>

lemma constructed_objective_has_no_Impl:
  "gradient (Objective_ctor p d) g x tol = Inl Null_pObjImpl_dereference
   \<and> dirDeriv (Objective_ctor p d) x dir tol = Inl Null_pObjImpl_dereference
   \<and> hessVec (Objective_ctor p d) hv v x tol = Inl Null_pObjImpl_dereference
   \<and> update (Objective_ctor p d) x = Inr ([], ())"
  by (simp add: Objective_ctor_def gradient_def dirDeriv_def hessVec_def update_def)

text \<open>
  C2, as stated, fails: \<open>update\<close>, \<open>access\<close>, \<open>invHessVec\<close> and \<open>precond\<close> do not go
  through \<open>pObjImpl_\<close> at all, on an object that holds an \<open>Impl\<close> as on one that the
  constructor left without, whatever \<open>ignore\<close> does with their arguments.
\<close>

theorem objective_ignoring_methods_do_not_delegate:
  "\<not> delegates_to_Impl (update objective_sample 3)
   \<and> \<not> delegates_to_Impl (access ignore_keeping objective_sample ''visitor'')
   \<and> \<not> delegates_to_Impl (invHessVec ignore_keeping objective_sample 5 1 3 0)
   \<and> \<not> delegates_to_Impl (precond ignore_zeroing objective_sample 5 1 3 0)
   \<and> \<not> delegates_to_Impl (update objective_constructed 3)
   \<and> \<not> delegates_to_Impl (access ignore_zeroing objective_constructed ''visitor'')
   \<and> \<not> delegates_to_Impl (invHessVec ignore_zeroing objective_constructed 5 1 3 0)
   \<and> \<not> delegates_to_Impl (precond ignore_keeping objective_constructed 5 1 3 0)"
  by (simp add: delegates_to_Impl_def update_def access_def invHessVec_def precond_def)

text \<open>
  C2, amended. Of the virtual methods with a body, \<open>gradient\<close>, \<open>dirDeriv\<close> and
  \<open>hessVec\<close> have no algorithm of their own: each goes through \<open>pObjImpl_\<close> for exactly
  one call, on the member of \<open>Impl\<close> of the same name, and hands back its result.
  \<open>update\<close>, \<open>access\<close>, \<open>invHessVec\<close> and \<open>precond\<close> only hand their arguments to
  \<open>ignore\<close>: they never go through \<open>pObjImpl_\<close>, and what they leave in a reference
  argument is what \<open>ignore\<close> left there; \<open>setParameters\<close> stores its argument. Only
  \<open>value\<close> is pure virtual.
\<close>

theorem objective_default_methods:
  "gradient this g x tol =
     (case pObjImpl this of
        None \<Rightarrow> Inl Null_pObjImpl_dereference
      | Some impl \<Rightarrow> Inr ([Impl_gradient], impl_gradient impl (self this) g x tol))
   \<and> dirDeriv this x d tol =
     (case pObjImpl this of
        None \<Rightarrow> Inl Null_pObjImpl_dereference
      | Some impl \<Rightarrow> Inr ([Impl_dirDeriv], (impl_dirDeriv impl (self this) x d, tol)))
   \<and> hessVec this hv v x tol =
     (case pObjImpl this of
        None \<Rightarrow> Inl Null_pObjImpl_dereference
      | Some impl \<Rightarrow> Inr ([Impl_hessVec], impl_hessVec impl (self this) hv v x tol))
   \<and> delegates_to_Impl (gradient this g x tol)
   \<and> delegates_to_Impl (dirDeriv this x d tol)
   \<and> delegates_to_Impl (hessVec this hv v x tol)
   \<and> update this x = Inr ([], ())
   \<and> access ign this objEI = Inr ([], ignore_objEI ign objEI)
   \<and> invHessVec ign this ihv w x tol = Inr ([], (ignore_hv ign ihv w x, tol))
   \<and> precond ign this Pv w x tol = Inr ([], (ignore_hv ign Pv w x, tol))
   \<and> \<not> delegates_to_Impl (update this x)
   \<and> \<not> delegates_to_Impl (access ign this objEI)
   \<and> \<not> delegates_to_Impl (invHessVec ign this ihv w x tol)
   \<and> \<not> delegates_to_Impl (precond ign this Pv w x tol)
   \<and> setParameters this p = Inr ([], this\<lparr>param := p\<rparr>)
   \<and> (declared m = Pure_virtual) = (m = M_value)"
  by (cases m; cases "pObjImpl this")
     (simp_all add: gradient_def dirDeriv_def hessVec_def update_def access_def invHessVec_def
        precond_def setParameters_def delegates_to_Impl_def)

subsection \<open>The captured log\<close>

text \<open>
  C8. Every object-count row of the log, before and after load balancing, has the sum
  380 and satisfies min \<open>\<le>\<close> max \<open>\<le>\<close> sum; rows of both phases are present.
\<close>

theorem object_counts_conserved:
  "list_all object_count_ok object_counts
   \<and> map count_sum (filter (\<lambda>r. phase_of r = Before_load_balancing) object_counts)
       = [380, 380, 380, 380]
   \<and> map count_sum (filter (\<lambda>r. phase_of r = After_load_balancing) object_counts)
       = [380, 380, 380, 380]"
  by (simp add: object_counts_def object_count_ok_def)

subsection \<open>The unit tests\<close>

lemma multicol_columns_no_assert:
  "MyPID (eComm fx) = 0 \<or> MyPID (eComm fx) = 1 \<Longrightarrow> snd (multicol_columns fx cs) = None"
  by (induction cs) (auto simp: Let_def split: prod.splits)

lemma assert_false_reached_outside_ranks:
  "NumProc (eComm fx) = 2 \<Longrightarrow> MyPID (eComm fx) \<noteq> 0 \<Longrightarrow> MyPID (eComm fx) \<noteq> 1 \<Longrightarrow>
     snd (GhostedFieldVector fx) = Some Assert_false"
  by (simp add: GhostedFieldVector_def Let_def)

text \<open>
  What the first test accepts: a run of entry checks passes exactly when the vector
  holds the expected values at those places.
\<close>

lemma expect_from_passed:
  "list_all (\<lambda>c. c = Passed) (expect_from i v ks)
     = (ks = [] \<or> (i + length ks \<le> length v \<and> take (length ks) (drop i v) = ks))"
proof (induction ks arbitrary: i)
  case Nil
  show ?case by simp
next
  case (Cons k ks)
  show ?case
  proof (cases "i < length v")
    case False
    then show ?thesis by (simp add: TEST_EQUALITY_at_def)
  next
    case True
    then have d: "drop i v = v ! i # drop (Suc i) v"
      by (simp add: Cons_nth_drop_Suc)
    from True show ?thesis
      by (cases "ks = []") (auto simp: Cons.IH d TEST_EQUALITY_at_def TEST_EQUALITY_def)
  qed
qed

lemma expect_entries_passed:
  "list_all (\<lambda>c. c = Passed) (expect_entries v ks)
     = (ks = [] \<or> (length ks \<le> length v \<and> take (length ks) v = ks))"
  by (simp add: expect_entries_def expect_from_passed)

lemma GhostedFieldVector_passes_on_rank_0:
  assumes "NumProc (eComm fx) = 2" "MyPID (eComm fx) = 0"
  shows "list_all (\<lambda>c. c = Passed) (fst (GhostedFieldVector fx))
     = (length (ghostedFields fx) = length (sharedIndices fx)
        \<and> - 1 < min_list (ghostedFields fx)
        \<and> 14 \<le> length (ghostedFields fx)
        \<and> take 14 (ghostedFields fx) = [0, 1, 0, 1, 0, 1, 0, 1, 0, 1, 0, 0, 0, 1])"
  using assms
  by (auto simp: GhostedFieldVector_def Let_def expect_entries_passed
        TEST_EQUALITY_def TEST_COMPARE_greater_def eval_nat_numeral)

lemma GhostedFieldVector_passes_on_rank_1:
  assumes "NumProc (eComm fx) = 2" "MyPID (eComm fx) = 1"
  shows "list_all (\<lambda>c. c = Passed) (fst (GhostedFieldVector fx))
     = (length (ghostedFields fx) = length (sharedIndices fx)
        \<and> - 1 < min_list (ghostedFields fx)
        \<and> 12 \<le> length (ghostedFields fx)
        \<and> take 12 (ghostedFields fx) = [0, 1, 0, 1, 0, 1, 0, 1, 0, 0, 0, 0])"
  using assms
  by (auto simp: GhostedFieldVector_def Let_def expect_entries_passed
        TEST_EQUALITY_def TEST_COMPARE_greater_def eval_nat_numeral)

text \<open>
  C4. Each unit test of the file needs exactly two processes: with any other number the
  assertion \<open>numProcs==2\<close> ends the test before a single check is evaluated, and with
  two processes, the rank then being 0 or 1, no assertion ends the test, so the final
  \<open>TEUCHOS_ASSERT(false)\<close> is not reached.
\<close>

theorem unit_tests_require_two_processes:
  "test \<in> snd ` set unit_tests \<Longrightarrow>
     (NumProc (eComm fx) \<noteq> 2 \<longrightarrow> test fx = ([], Some Assert_numProcs_is_2))
     \<and> (NumProc (eComm fx) = 2 \<and> comm_ok (eComm fx) \<longrightarrow>
          (MyPID (eComm fx) = 0 \<or> MyPID (eComm fx) = 1)
          \<and> snd (test fx) \<noteq> Some Assert_false \<and> snd (test fx) = None)"
proof -
  assume t: "test \<in> snd ` set unit_tests"
  have rank: "MyPID (eComm fx) = 0 \<or> MyPID (eComm fx) = 1"
    if "NumProc (eComm fx) = 2" "comm_ok (eComm fx)"
    using that by (auto simp: comm_ok_def)
  from t consider "test = GhostedFieldVector" | "test = updateGhostedDataVector"
    | "test = ArrayToFieldVector_ghost" | "test = ArrayToFieldVector"
    | "test = ArrayToFieldVector_multicol"
    by (auto simp: unit_tests_def)
  then show ?thesis
  proof cases
    case 1
    then show ?thesis using rank by (auto simp: GhostedFieldVector_def Let_def)
  next
    case 2
    then show ?thesis using rank by (auto simp: updateGhostedDataVector_def Let_def)
  next
    case 3
    then show ?thesis using rank by (auto simp: ArrayToFieldVector_ghost_def Let_def)
  next
    case 4
    then show ?thesis using rank by (auto simp: ArrayToFieldVector_def Let_def)
  next
    case 5
    then show ?thesis
      using rank multicol_columns_no_assert [of fx "[0..<5]"]
      by (auto simp: ArrayToFieldVector_multicol_def Let_def split: prod.splits)
  qed
qed

theorem unit_tests_require_two_processes_witness:
  "GhostedFieldVector (fixture_sample 0 3) = ([], Some Assert_numProcs_is_2)
   \<and> ArrayToFieldVector_multicol (fixture_sample 0 1) = ([], Some Assert_numProcs_is_2)
   \<and> snd (GhostedFieldVector (fixture_sample 1 2)) = None
   \<and> snd (ArrayToFieldVector_multicol (fixture_sample 0 2)) = None"
proof -
  have g: "GhostedFieldVector \<in> snd ` set unit_tests"
    and m: "ArrayToFieldVector_multicol \<in> snd ` set unit_tests"
    by (simp_all add: unit_tests_def)
  have c: "comm_ok (eComm (fixture_sample 1 2))" "comm_ok (eComm (fixture_sample 0 2))"
    "NumProc (eComm (fixture_sample 0 3)) \<noteq> 2" "NumProc (eComm (fixture_sample 0 1)) \<noteq> 2"
    "NumProc (eComm (fixture_sample 1 2)) = 2" "NumProc (eComm (fixture_sample 0 2)) = 2"
    by (simp_all add: comm_ok_def fixture_sample_def)
  show ?thesis
    using c
      unit_tests_require_two_processes [OF g, of "fixture_sample 0 3"]
      unit_tests_require_two_processes [OF m, of "fixture_sample 0 1"]
      unit_tests_require_two_processes [OF g, of "fixture_sample 1 2"]
      unit_tests_require_two_processes [OF m, of "fixture_sample 0 2"]
    by blast
qed

end
